theory Spec2Isabelle
  imports Main
begin

section \<open>JavaScript values as the dashboard receives them\<close>

text \<open>
  The profile endpoint is reached through an untyped client (\<open>profileAPI.getDonorProfile\<close>);
  the screen probes its answer with truthiness tests, \<open>||\<close> fallbacks and a method call
  on whatever it finds. The answer is therefore modelled as a JSON value, with
  \<open>undefined\<close> added for absent properties. Strings are byte strings and numbers are
  integers; objects are association lists (the first binding of a key is the one read).
\<close>

datatype jsval =
    JUndefined
  | JNull
  | JBool bool
  | JNum int
  | JStr string
  | JArr "jsval list"
  | JObj "(string \<times> jsval) list"

datatype js_error = TypeError | RequestFailed

text \<open>The outcome of an awaited promise: it rejects, or it resolves to a value.\<close>

datatype 'a outcome = Threw | Returned 'a

text \<open>JavaScript truthiness (\<open>ToBoolean\<close>) on these values.\<close>

fun truthy :: "jsval \<Rightarrow> bool" where
  "truthy JUndefined = False"
| "truthy JNull = False"
| "truthy (JBool b) = b"
| "truthy (JNum n) = (n \<noteq> 0)"
| "truthy (JStr s) = (s \<noteq> [])"
| "truthy (JArr xs) = True"
| "truthy (JObj kvs) = True"

text \<open>\<open>a || b\<close>: the left operand when it is truthy, the right one otherwise.\<close>

definition js_or :: "jsval \<Rightarrow> jsval \<Rightarrow> jsval" where
  "js_or a b = (if truthy a then a else b)"

text \<open>
  Property read \<open>v.k\<close> for the property names this screen uses (none of them is a
  built-in property of strings, numbers or arrays): reading from \<open>undefined\<close> or
  \<open>null\<close> throws a TypeError, an object yields the bound value or \<open>undefined\<close>,
  every other value yields \<open>undefined\<close>.
\<close>

fun getProp :: "jsval \<Rightarrow> string \<Rightarrow> js_error + jsval" where
  "getProp JUndefined k = Inl TypeError"
| "getProp JNull k = Inl TypeError"
| "getProp (JObj kvs) k = Inr (case map_of kvs k of None \<Rightarrow> JUndefined | Some v \<Rightarrow> v)"
| "getProp v k = Inr JUndefined"

text \<open>\<open>String.prototype.toLowerCase\<close> on byte strings: the ASCII capitals are mapped.\<close>

definition lower_char :: "char \<Rightarrow> char" where
  "lower_char c =
     (let n = (of_char c :: nat)
      in if 65 \<le> n \<and> n \<le> 90 then char_of (n + 32) else c)"

definition toLowerCase :: "string \<Rightarrow> string" where
  "toLowerCase s = map lower_char s"

text \<open>
  The method call \<open>v.toLowerCase()\<close>: only a string has the method. On \<open>undefined\<close>
  and \<open>null\<close> the property read throws; on any other JSON value the property is
  \<open>undefined\<close> and calling it throws.
\<close>

fun callToLowerCase :: "jsval \<Rightarrow> js_error + string" where
  "callToLowerCase (JStr s) = Inr (toLowerCase s)"
| "callToLowerCase v = Inl TypeError"

section \<open>The dashboard's state\<close>

record donor_info =
  bloodType :: "string option"
  lastDonation :: "string option"
  nextEligible :: "string option"
  daysUntilEligible :: "int option"
  isEligible :: bool

record donation =
  date :: string
  location :: string
  units :: int
  bloodGroup :: "string option"

record user =
  uid :: jsval
  uname :: string
  email :: "string option"

text \<open>
  One field per \<open>useState\<close> cell of \<open>DonorHomeScreen\<close>. The profile status is declared
  as a union of five literals, but the value stored is the lower-cased string of the
  server, so the cell holds a string. The remarks cell holds whatever \<open>||\<close> selected.
\<close>

record dashboard =
  availableRequestsCount :: int
  profileStatus :: string
  profileRemarks :: jsval
  donatedCount :: int
  donorInfo :: donor_info
  recentDonations :: "donation list"
  loadingDonations :: bool
  unreadCount :: int
  showMenu :: bool

definition initialDonorInfo :: donor_info where
  "initialDonorInfo =
     \<lparr>bloodType = None, lastDonation = None, nextEligible = None,
      daysUntilEligible = None, isEligible = False\<rparr>"

definition initialDashboard :: dashboard where
  "initialDashboard =
     \<lparr>availableRequestsCount = 0, profileStatus = ''loading'', profileRemarks = JStr '''',
      donatedCount = 0, donorInfo = initialDonorInfo, recentDonations = [],
      loadingDonations = True, unreadCount = 0, showMenu = False\<rparr>"

text \<open>\<open>user?.id\<close> as a condition: there is a user and its id is truthy.\<close>

definition hasUserId :: "user option \<Rightarrow> bool" where
  "hasUserId u = (case u of None \<Rightarrow> False | Some v \<Rightarrow> truthy (uid v))"

section \<open>Refreshing the profile status\<close>

text \<open>
  The body of the \<open>try\<close> block of \<open>loadProfileStatus\<close>, from the awaited answer on.
  Every point that can throw (the rejected request, the reads on the answer, the call of
  \<open>toLowerCase\<close>) lies before the first setter call, so a throw leaves no partial update
  and the error value need not carry a state.
\<close>

definition bindE :: "js_error + 'a \<Rightarrow> ('a \<Rightarrow> js_error + 'b) \<Rightarrow> js_error + 'b" where
  "bindE m f = (case m of Inl e \<Rightarrow> Inl e | Inr x \<Rightarrow> f x)"

text \<open>
  The branch taken for a truthy profile. In \<open>a || b\<close> the right operand is read only
  when the left one is falsy; the profile is truthy here, so neither read throws.
\<close>

definition storeProfile :: "jsval \<Rightarrow> dashboard \<Rightarrow> js_error + dashboard" where
  "storeProfile profile s =
     bindE (getProp profile ''approval_status'') (\<lambda>a1.
     bindE (if truthy a1 then Inr a1 else getProp profile ''approvalStatus'') (\<lambda>status.
     bindE (callToLowerCase status) (\<lambda>st.
     bindE (getProp profile ''admin_remarks'') (\<lambda>r1.
     bindE (if truthy r1 then Inr r1 else getProp profile ''adminRemarks'') (\<lambda>r2.
       Inr (s\<lparr>profileStatus := st, profileRemarks := js_or r2 (JStr '''')\<rparr>))))))"

definition profileTryBody :: "jsval outcome \<Rightarrow> dashboard \<Rightarrow> js_error + dashboard" where
  "profileTryBody r s =
     (case r of
        Threw \<Rightarrow> Inl RequestFailed
      | Returned response \<Rightarrow>
          bindE (getProp response ''success'') (\<lambda>success.
            if \<not> truthy success then Inr (s\<lparr>profileStatus := ''none''\<rparr>)
            else
              bindE (getProp response ''profile'') (\<lambda>profile.
                if \<not> truthy profile then Inr (s\<lparr>profileStatus := ''none''\<rparr>)
                else storeProfile profile s)))"

text \<open>
  \<open>loadProfileStatus\<close>: nothing happens without a user; otherwise the \<open>try\<close> body runs
  and the \<open>catch\<close> clause stores \<open>'none'\<close>.
\<close>

definition loadProfileStatusResume :: "jsval outcome \<Rightarrow> dashboard \<Rightarrow> dashboard" where
  "loadProfileStatusResume r s =
     (case profileTryBody r s of
        Inl e \<Rightarrow> s\<lparr>profileStatus := ''none''\<rparr>
      | Inr s' \<Rightarrow> s')"

definition loadProfileStatus :: "user option \<Rightarrow> jsval outcome \<Rightarrow> dashboard \<Rightarrow> dashboard" where
  "loadProfileStatus u r s =
     (case u of
        None \<Rightarrow> s
      | Some v \<Rightarrow> loadProfileStatusResume r s)"

section \<open>The profile status card\<close>

text \<open>
  The card is a chain of conditionals on the status, tested in the order loading, none,
  pending, rejected, approved; the chain ends in \<open>null\<close>, which renders nothing.
\<close>

datatype status_card =
    LoadingCard
  | IncompleteCard
  | PendingCard
  | RejectedCard jsval
  | ApprovedCard
  | NoCard

definition profileStatusCard :: "dashboard \<Rightarrow> status_card" where
  "profileStatusCard s =
     (if profileStatus s = ''loading'' then LoadingCard
      else if profileStatus s = ''none'' then IncompleteCard
      else if profileStatus s = ''pending'' then PendingCard
      else if profileStatus s = ''rejected'' then
        RejectedCard (js_or (profileRemarks s) (JStr ''Please update your profile''))
      else if profileStatus s = ''approved'' then ApprovedCard
      else NoCard)"

section \<open>Refreshing statistics, details, donations and the request count\<close>

text \<open>
  The answers of the remaining endpoints are read field by field into cells whose types
  the screen declares, so they are modelled as records of those types (a JavaScript
  \<open>number\<close> as an integer, a nullable string as an option). \<open>Threw\<close> stands for
  everything the \<open>catch\<close> clause receives: a rejected request, a body that is not JSON,
  a read on an answer that is \<open>null\<close>.
\<close>

record donor_stats =
  stats_donatedCount :: int

record details_response =
  d_success :: bool
  d_bloodGroup :: "string option"
  d_lastDonation :: "string option"
  d_nextEligible :: "string option"
  d_daysUntilEligible :: "int option"
  d_isEligible :: bool

record donations_response =
  r_success :: bool
  r_donations :: "donation list"

record available_response =
  requests :: "jsval list option"

text \<open>
  Each loader is split at its \<open>await\<close>: the guard on the user runs before the request
  is sent, the continuation (\<open>Resume\<close>) runs when the answer arrives.
\<close>

definition loadDonorStatsResume :: "donor_stats outcome \<Rightarrow> dashboard \<Rightarrow> dashboard" where
  "loadDonorStatsResume r s =
     (case r of
        Threw \<Rightarrow> s
      | Returned stats \<Rightarrow> s\<lparr>donatedCount := stats_donatedCount stats\<rparr>)"

definition loadDonorStats :: "user option \<Rightarrow> donor_stats outcome \<Rightarrow> dashboard \<Rightarrow> dashboard" where
  "loadDonorStats u r s = (if \<not> hasUserId u then s else loadDonorStatsResume r s)"

definition loadDonorDetailsResume :: "details_response outcome \<Rightarrow> dashboard \<Rightarrow> dashboard" where
  "loadDonorDetailsResume r s =
     (case r of
        Threw \<Rightarrow> s
      | Returned data \<Rightarrow>
          if d_success data then
            s\<lparr>donorInfo :=
                \<lparr>bloodType = d_bloodGroup data,
                 lastDonation = d_lastDonation data,
                 nextEligible = d_nextEligible data,
                 daysUntilEligible = d_daysUntilEligible data,
                 isEligible = d_isEligible data\<rparr>\<rparr>
          else s)"

definition loadDonorDetails :: "user option \<Rightarrow> details_response outcome \<Rightarrow> dashboard \<Rightarrow> dashboard" where
  "loadDonorDetails u r s = (if \<not> hasUserId u then s else loadDonorDetailsResume r s)"

text \<open>
  \<open>loadRecentDonations\<close> raises the loading flag before the request and lowers it in
  its \<open>finally\<close> clause, whatever the answer was.
\<close>

definition loadRecentDonationsStart :: "dashboard \<Rightarrow> dashboard" where
  "loadRecentDonationsStart s = s\<lparr>loadingDonations := True\<rparr>"

definition loadRecentDonationsResume :: "donations_response outcome \<Rightarrow> dashboard \<Rightarrow> dashboard" where
  "loadRecentDonationsResume r s =
     (let s' = (case r of
                  Threw \<Rightarrow> s
                | Returned data \<Rightarrow>
                    if r_success data then s\<lparr>recentDonations := r_donations data\<rparr> else s)
      in s'\<lparr>loadingDonations := False\<rparr>)"

definition loadRecentDonations ::
  "user option \<Rightarrow> donations_response outcome \<Rightarrow> dashboard \<Rightarrow> dashboard" where
  "loadRecentDonations u r s =
     (if \<not> hasUserId u then s
      else loadRecentDonationsResume r (loadRecentDonationsStart s))"

text \<open>\<open>response.requests?.length || 0\<close>, and \<open>0\<close> again in the \<open>catch\<close> clause.\<close>

definition updateAvailableCountResume :: "available_response outcome \<Rightarrow> dashboard \<Rightarrow> dashboard" where
  "updateAvailableCountResume r s =
     (case r of
        Threw \<Rightarrow> s\<lparr>availableRequestsCount := 0\<rparr>
      | Returned response \<Rightarrow>
          s\<lparr>availableRequestsCount :=
              (case requests response of None \<Rightarrow> 0 | Some xs \<Rightarrow> int (length xs))\<rparr>)"

definition updateAvailableCount ::
  "user option \<Rightarrow> available_response outcome \<Rightarrow> dashboard \<Rightarrow> dashboard" where
  "updateAvailableCount u r s = (if \<not> hasUserId u then s else updateAvailableCountResume r s)"

section \<open>The eligibility card and the recent donations\<close>

text \<open>Truthiness of a nullable string: \<open>null\<close> and the empty string are falsy.\<close>

definition truthyStr :: "string option \<Rightarrow> bool" where
  "truthyStr x = (case x of None \<Rightarrow> False | Some t \<Rightarrow> t \<noteq> [])"

record eligibility_footer =
  nextEligibleValue :: "string option"
  countdownDays :: "int option"

record eligibility_view =
  eligibilityTitle :: string
  eligibilitySubtitle :: string
  eligibilityFooter :: "eligibility_footer option"

text \<open>
  The card is rendered when the blood type is truthy. Its footer, which holds the
  countdown badge, is guarded by
  \<open>!isEligible && daysUntilEligible !== null && daysUntilEligible > 0 && nextEligible\<close>.
\<close>

definition showCountdown :: "donor_info \<Rightarrow> bool" where
  "showCountdown d =
     (\<not> isEligible d \<and> daysUntilEligible d \<noteq> None
      \<and> (case daysUntilEligible d of None \<Rightarrow> False | Some n \<Rightarrow> n > 0)
      \<and> truthyStr (nextEligible d))"

definition eligibilityCard :: "dashboard \<Rightarrow> eligibility_view option" where
  "eligibilityCard s =
     (let d = donorInfo s in
      if truthyStr (bloodType d) then
        Some \<lparr>eligibilityTitle =
                (if isEligible d then ''Eligible to Donate!'' else ''Not Eligible Yet''),
              eligibilitySubtitle =
                (if isEligible d then ''You can donate blood today''
                 else (case lastDonation d of
                         Some l \<Rightarrow>
                           if l \<noteq> [] \<and> truthyStr (nextEligible d)
                           then ''Last donated on '' @ l
                           else ''Complete your profile to start donating''
                       | None \<Rightarrow> ''Complete your profile to start donating'')),
              eligibilityFooter =
                (if showCountdown d
                 then Some \<lparr>nextEligibleValue = nextEligible d,
                            countdownDays = daysUntilEligible d\<rparr>
                 else None)\<rparr>
      else None)"

text \<open>
  Whether the countdown badge is on the screen: the card is rendered and has its footer.
\<close>

definition countdownBadge :: "dashboard \<Rightarrow> bool" where
  "countdownBadge s =
     (case eligibilityCard s of
        None \<Rightarrow> False
      | Some v \<Rightarrow> eligibilityFooter v \<noteq> None)"

record history_item =
  historyLocation :: string
  historyDate :: string
  historyUnits :: int

datatype donations_section =
    DonationsLoading
  | DonationsList "history_item list"
  | DonationsEmpty

definition historyItem :: "donation \<Rightarrow> history_item" where
  "historyItem d =
     \<lparr>historyLocation = location d, historyDate = date d, historyUnits = units d\<rparr>"

definition recentDonationsSection :: "dashboard \<Rightarrow> donations_section" where
  "recentDonationsSection s =
     (if loadingDonations s then DonationsLoading
      else if length (recentDonations s) > 0
        then DonationsList (map historyItem (recentDonations s))
      else DonationsEmpty)"

section \<open>The alert dialog\<close>

text \<open>
  Callbacks are opaque to the dialog; what it decides is which of them it calls and in
  which order. A callback is modelled by its name, calling it by appending the name to a
  log of calls, and every callback is taken to return normally.
\<close>

datatype button_style = StyleDefault | StyleCancel | StyleDestructive

record 'c alert_button =
  btext :: string
  onPress :: "'c option"
  style :: "button_style option"

record 'c alert_props =
  buttons :: "'c alert_button list option"
  onDismiss :: "'c option"

datatype style_class =
    Button | ButtonCancel | ButtonDestructive | ButtonSingle
  | ButtonText | ButtonTextCancel | ButtonTextDestructive

record 'c touchable =
  touchStyle :: "style_class list"
  touchOnPress :: "'c list \<Rightarrow> 'c list"
  labelStyle :: "style_class list"
  label :: string

text \<open>\<open>if (cb) { cb(); }\<close>\<close>

definition invoke :: "'c option \<Rightarrow> 'c list \<Rightarrow> 'c list" where
  "invoke cb calls = (case cb of None \<Rightarrow> calls | Some c \<Rightarrow> calls @ [c])"

definition handleButtonPress :: "'c option \<Rightarrow> 'c alert_button \<Rightarrow> 'c list \<Rightarrow> 'c list" where
  "handleButtonPress dismiss button calls = invoke dismiss (invoke (onPress button) calls)"

text \<open>The default of the \<open>buttons\<close> property, used when the caller passes none.\<close>

definition defaultButtons :: "'c alert_button list" where
  "defaultButtons = [\<lparr>btext = ''OK'', onPress = None, style = Some StyleDefault\<rparr>]"

text \<open>
  A style array \<open>[a, c && b, ...]\<close> keeps the entries whose condition holds. \<open>n\<close> is
  \<open>buttons.length\<close>.
\<close>

definition renderButton :: "nat \<Rightarrow> 'c option \<Rightarrow> 'c alert_button \<Rightarrow> 'c touchable" where
  "renderButton n dismiss button =
     \<lparr>touchStyle =
        [Button]
        @ (if style button = Some StyleCancel then [ButtonCancel] else [])
        @ (if style button = Some StyleDestructive then [ButtonDestructive] else [])
        @ (if n = 1 then [ButtonSingle] else []),
      touchOnPress = handleButtonPress dismiss button,
      labelStyle =
        [ButtonText]
        @ (if style button = Some StyleCancel then [ButtonTextCancel] else [])
        @ (if style button = Some StyleDestructive then [ButtonTextDestructive] else []),
      label = btext button\<rparr>"

definition CustomAlert :: "'c alert_props \<Rightarrow> 'c touchable list" where
  "CustomAlert props =
     (let bs = (case buttons props of None \<Rightarrow> defaultButtons | Some given \<Rightarrow> given)
      in map (renderButton (length bs) (onDismiss props)) bs)"

section \<open>The screen over time: timer, focus, unmount and answers in flight\<close>

text \<open>
  The event loop runs one callback at a time, so the life of a mounted screen is a
  sequence of events: the interval fires, the screen gains focus, an outstanding request
  is answered, the screen unmounts. A request that was sent stays in flight until its
  answer arrives; its continuation then runs on the cells as they are at that moment.
  The cleanup of the polling effect is \<open>clearInterval(interval)\<close> and nothing else.
\<close>

datatype request =
    ReqAvailable | ReqStats | ReqDetails | ReqProfile | ReqDonations | ReqUnread

datatype answer =
    AvailableAnswer "available_response outcome"
  | StatsAnswer "donor_stats outcome"
  | DetailsAnswer "details_response outcome"
  | ProfileAnswer "jsval outcome"
  | DonationsAnswer "donations_response outcome"
  | UnreadAnswer "int outcome"

record screen =
  mounted :: bool
  intervalActive :: bool
  inflight :: "request list"
  cells :: dashboard

datatype event = TimerFires | FocusGained | Unmount | Resolve nat answer

fun answers :: "answer \<Rightarrow> request" where
  "answers (AvailableAnswer r) = ReqAvailable"
| "answers (StatsAnswer r) = ReqStats"
| "answers (DetailsAnswer r) = ReqDetails"
| "answers (ProfileAnswer r) = ReqProfile"
| "answers (DonationsAnswer r) = ReqDonations"
| "answers (UnreadAnswer r) = ReqUnread"

text \<open>
  \<open>loadUnreadCount\<close> has no \<open>try\<close>: a rejected request leaves the counter as it was.
\<close>

definition loadUnreadCountResume :: "int outcome \<Rightarrow> dashboard \<Rightarrow> dashboard" where
  "loadUnreadCountResume r s =
     (case r of Threw \<Rightarrow> s | Returned n \<Rightarrow> s\<lparr>unreadCount := n\<rparr>)"

fun resume :: "answer \<Rightarrow> dashboard \<Rightarrow> dashboard" where
  "resume (AvailableAnswer r) s = updateAvailableCountResume r s"
| "resume (StatsAnswer r) s = loadDonorStatsResume r s"
| "resume (DetailsAnswer r) s = loadDonorDetailsResume r s"
| "resume (ProfileAnswer r) s = loadProfileStatusResume r s"
| "resume (DonationsAnswer r) s = loadRecentDonationsResume r s"
| "resume (UnreadAnswer r) s = loadUnreadCountResume r s"

text \<open>
  The requests each trigger sends. The interval callback calls \<open>updateAvailableCount\<close>,
  \<open>loadDonorStats\<close> and \<open>loadDonorDetails\<close>; the focus callbacks call
  \<open>loadUnreadCount\<close> and the five loaders. \<open>loadProfileStatus\<close> is guarded by the user
  alone, the others by the user's id.
\<close>

definition timerRequests :: "user option \<Rightarrow> request list" where
  "timerRequests u = (if hasUserId u then [ReqAvailable, ReqStats, ReqDetails] else [])"

definition focusRequests :: "user option \<Rightarrow> request list" where
  "focusRequests u =
     (if hasUserId u then [ReqUnread, ReqAvailable, ReqStats] else [])
     @ (if u = None then [] else [ReqProfile])
     @ (if hasUserId u then [ReqDetails, ReqDonations] else [])"

definition mountRequests :: "user option \<Rightarrow> request list" where
  "mountRequests u =
     (if u = None then [] else [ReqProfile])
     @ (if hasUserId u then [ReqStats, ReqDetails, ReqDonations, ReqAvailable] else [])"

definition startLoadingDonations :: "user option \<Rightarrow> dashboard \<Rightarrow> dashboard" where
  "startLoadingDonations u s = (if hasUserId u then loadRecentDonationsStart s else s)"

text \<open>The screen right after its first render: the effects have sent their requests.\<close>

definition mountScreen :: "user option \<Rightarrow> screen" where
  "mountScreen u =
     \<lparr>mounted = True, intervalActive = True,
      inflight = mountRequests u @ focusRequests u,
      cells = startLoadingDonations u initialDashboard\<rparr>"

definition removeAt :: "nat \<Rightarrow> 'a list \<Rightarrow> 'a list" where
  "removeAt i xs = take i xs @ drop (Suc i) xs"

fun step :: "user option \<Rightarrow> event \<Rightarrow> screen \<Rightarrow> screen" where
  "step u TimerFires sc =
     (if intervalActive sc then sc\<lparr>inflight := inflight sc @ timerRequests u\<rparr> else sc)"
| "step u FocusGained sc =
     (if mounted sc
      then sc\<lparr>inflight := inflight sc @ focusRequests u,
              cells := startLoadingDonations u (cells sc)\<rparr>
      else sc)"
| "step u Unmount sc = sc\<lparr>mounted := False, intervalActive := False\<rparr>"
| "step u (Resolve i a) sc =
     (if i < length (inflight sc) \<and> inflight sc ! i = answers a
      then sc\<lparr>inflight := removeAt i (inflight sc), cells := resume a (cells sc)\<rparr>
      else sc)"

fun run :: "user option \<Rightarrow> event list \<Rightarrow> screen \<Rightarrow> screen" where
  "run u [] sc = sc"
| "run u (e # es) sc = run u es (step u e sc)"

section \<open>Sample inputs\<close>

definition sampleUser :: user where
  "sampleUser = \<lparr>uid = JNum 1, uname = ''A'', email = None\<rparr>"

text \<open>An answer whose approval status is none of the four the card knows.\<close>

definition suspendedAnswer :: jsval where
  "suspendedAnswer =
     JObj [(''success'', JBool True),
           (''profile'', JObj [(''approval_status'', JStr ''SUSPENDED'')])]"

text \<open>An answer whose approval status is the empty string.\<close>

definition emptyStatusAnswer :: jsval where
  "emptyStatusAnswer =
     JObj [(''success'', JBool True),
           (''profile'', JObj [(''approval_status'', JStr [])])]"

text \<open>The buttons of the logout confirmation that the dashboard shows.\<close>

definition logoutButtons :: "string alert_button list" where
  "logoutButtons =
     [\<lparr>btext = ''Cancel'', onPress = None, style = Some StyleCancel\<rparr>,
      \<lparr>btext = ''Logout'', onPress = Some ''logout'', style = Some StyleDestructive\<rparr>]"

definition notEligibleInfo :: "int \<Rightarrow> donor_info" where
  "notEligibleInfo n =
     \<lparr>bloodType = Some ''O+'', lastDonation = Some ''2025-01-10'',
      nextEligible = Some ''2025-04-10'', daysUntilEligible = Some n, isEligible = False\<rparr>"

section \<open>Auxiliary facts\<close>

lemma truthy_getProp_ok: "truthy p \<Longrightarrow> \<exists>v. getProp p k = Inr v"
  by (cases p) simp_all

lemma storeProfile_status:
  assumes "getProp p ''approval_status'' = Inr a1"
    and "getProp p ''approvalStatus'' = Inr a2"
    and "truthy p"
  shows "(case storeProfile p s of
            Inl e \<Rightarrow> (\<forall>t. js_or a1 a2 \<noteq> JStr t)
          | Inr s' \<Rightarrow> (\<exists>t. js_or a1 a2 = JStr t \<and> profileStatus s' = toLowerCase t))"
proof -
  obtain r1 where r1: "getProp p ''admin_remarks'' = Inr r1"
    using truthy_getProp_ok [OF assms(3)] by blast
  obtain r2 where r2: "getProp p ''adminRemarks'' = Inr r2"
    using truthy_getProp_ok [OF assms(3)] by blast
  show ?thesis
    using assms(1,2) r1 r2
    by (cases "js_or a1 a2")
       (auto simp: storeProfile_def bindE_def js_or_def split: if_splits)
qed

lemma invoke_append: "invoke cb calls = calls @ (case cb of None \<Rightarrow> [] | Some c \<Rightarrow> [c])"
  by (simp add: invoke_def split: option.split)

lemma handleButtonPress_calls:
  "handleButtonPress dismiss b calls =
     calls @ (case onPress b of None \<Rightarrow> [] | Some c \<Rightarrow> [c])
           @ (case dismiss of None \<Rightarrow> [] | Some d \<Rightarrow> [d])"
  by (simp add: handleButtonPress_def invoke_append)

text \<open>Once the screen is unmounted and its interval cleared, no event starts a request.\<close>

lemma step_after_unmount:
  assumes "\<not> mounted sc" and "\<not> intervalActive sc"
  shows "\<not> mounted (step u e sc) \<and> \<not> intervalActive (step u e sc)
       \<and> length (inflight (step u e sc)) \<le> length (inflight sc)"
  using assms by (cases e) (auto simp: removeAt_def)

lemma run_after_unmount:
  "\<not> mounted sc \<Longrightarrow> \<not> intervalActive sc \<Longrightarrow>
     \<not> mounted (run u es sc) \<and> \<not> intervalActive (run u es sc)
     \<and> length (inflight (run u es sc)) \<le> length (inflight sc)"
proof (induction es arbitrary: sc)
  case Nil
  then show ?case by simp
next
  case (Cons e es)
  from step_after_unmount [OF Cons.prems, of u e]
  have st: "\<not> mounted (step u e sc)" "\<not> intervalActive (step u e sc)"
    and le: "length (inflight (step u e sc)) \<le> length (inflight sc)"
    by simp_all
  from Cons.IH [OF st] le show ?case by simp
qed

section \<open>The profile status card (C1)\<close>

text \<open>
  C1, as amended. For a profile status that is none of approved, pending, rejected and
  none, the card shows the loading branch exactly when the status is \<open>'loading'\<close>; for
  every other such status the chain of conditionals falls through to \<open>null\<close> and no
  profile status branch is rendered at all.
\<close>

theorem profileStatusCard_outside_known:
  "profileStatus s \<notin> {''approved'', ''pending'', ''rejected'', ''none''} \<Longrightarrow>
     profileStatusCard s = (if profileStatus s = ''loading'' then LoadingCard else NoCard)"
  by (simp add: profileStatusCard_def)

theorem profileStatusCard_outside_known_witness:
  "profileStatus initialDashboard \<notin> {''approved'', ''pending'', ''rejected'', ''none''}
   \<and> profileStatusCard initialDashboard = LoadingCard"
  using profileStatusCard_outside_known [of initialDashboard]
  by (simp add: initialDashboard_def)

text \<open>
  C1 as stated fails: a profile whose approval status is \<open>'SUSPENDED'\<close> is stored as
  \<open>'suspended'\<close>, which is none of the four statuses, and the card then renders nothing
  instead of the loading branch.
\<close>

theorem profileStatusCard_unknown_counterexample:
  "profileStatus (loadProfileStatus (Some sampleUser) (Returned suspendedAnswer) initialDashboard)
     \<notin> {''approved'', ''pending'', ''rejected'', ''none''}
   \<and> profileStatusCard
        (loadProfileStatus (Some sampleUser) (Returned suspendedAnswer) initialDashboard)
       = NoCard
   \<and> profileStatusCard
        (loadProfileStatus (Some sampleUser) (Returned suspendedAnswer) initialDashboard)
       \<noteq> LoadingCard"
  by code_simp

section \<open>Failures of the profile refresh (C2)\<close>

text \<open>
  C2. When \<open>loadProfileStatus\<close> runs for a user, an answer whose \<open>success\<close> is falsy, an
  answer with a truthy \<open>success\<close> and no (or a falsy) \<open>profile\<close>, and a thrown error all
  end in the same state: the state before, with the profile status \<open>'none'\<close>.
\<close>

theorem loadProfileStatus_failures_converge:
  assumes "u = Some v"
    and "(\<exists>x. getProp response ''success'' = Inr x \<and> \<not> truthy x)
         \<or> (\<exists>x p. getProp response ''success'' = Inr x \<and> truthy x
                \<and> getProp response ''profile'' = Inr p \<and> \<not> truthy p)"
  shows "loadProfileStatus u (Returned response) s = s\<lparr>profileStatus := ''none''\<rparr>
       \<and> loadProfileStatus u Threw s = s\<lparr>profileStatus := ''none''\<rparr>"
  using assms
  by (auto simp: loadProfileStatus_def loadProfileStatusResume_def profileTryBody_def bindE_def)

theorem loadProfileStatus_failures_converge_witness:
  "loadProfileStatus (Some sampleUser) (Returned (JObj [(''success'', JBool False)]))
       (initialDashboard\<lparr>profileStatus := ''approved''\<rparr>)
     = initialDashboard\<lparr>profileStatus := ''none''\<rparr>
   \<and> loadProfileStatus (Some sampleUser) Threw
       (initialDashboard\<lparr>profileStatus := ''approved''\<rparr>)
     = initialDashboard\<lparr>profileStatus := ''none''\<rparr>"
  using loadProfileStatus_failures_converge
          [of "Some sampleUser" sampleUser "JObj [(''success'', JBool False)]"
              "initialDashboard\<lparr>profileStatus := ''approved''\<rparr>"]
  by simp

section \<open>The eligibility countdown (C3)\<close>

text \<open>
  C3. The countdown badge is on the screen only if the donor is not eligible, the days
  until eligibility are not null and strictly positive, and the next eligible date is
  not null. In particular a day count of zero or below suppresses the badge.
\<close>

theorem countdownBadge_only_if:
  "(countdownBadge s \<longrightarrow>
      \<not> isEligible (donorInfo s)
      \<and> (\<exists>n. daysUntilEligible (donorInfo s) = Some n \<and> 0 < n)
      \<and> nextEligible (donorInfo s) \<noteq> None)
   \<and> (\<forall>n. daysUntilEligible (donorInfo s) = Some n \<and> n \<le> 0 \<longrightarrow> \<not> countdownBadge s)"
  by (auto simp: countdownBadge_def eligibilityCard_def showCountdown_def truthyStr_def Let_def
           split: option.splits if_splits)

theorem countdownBadge_only_if_witness:
  "countdownBadge (initialDashboard\<lparr>donorInfo := notEligibleInfo 12\<rparr>)
   \<and> \<not> isEligible (notEligibleInfo 12)
   \<and> daysUntilEligible (notEligibleInfo 12) = Some 12
   \<and> nextEligible (notEligibleInfo 12) \<noteq> None
   \<and> \<not> countdownBadge (initialDashboard\<lparr>donorInfo := notEligibleInfo 0\<rparr>)"
  using countdownBadge_only_if [of "initialDashboard\<lparr>donorInfo := notEligibleInfo 12\<rparr>"]
        countdownBadge_only_if [of "initialDashboard\<lparr>donorInfo := notEligibleInfo 0\<rparr>"]
  by (simp add: countdownBadge_def eligibilityCard_def showCountdown_def truthyStr_def
        notEligibleInfo_def Let_def)

section \<open>The recent donations (C4)\<close>

text \<open>
  C4. Once loading is complete, the section shows one item per stored donation, in
  order, when the list is not empty, and the empty-state message when it is; the two
  are alternatives of one conditional, so they never appear together. The list stored
  from a successful answer is the server's list, neither truncated nor extended.
\<close>

theorem recentDonationsSection_items_or_empty:
  "(\<not> loadingDonations s \<longrightarrow>
      recentDonationsSection s =
        (if recentDonations s = [] then DonationsEmpty
         else DonationsList (map historyItem (recentDonations s))))
   \<and> (hasUserId u \<and> r_success data \<longrightarrow>
        recentDonationsSection (loadRecentDonations u (Returned data) s) =
          (if r_donations data = [] then DonationsEmpty
           else DonationsList (map historyItem (r_donations data))))"
  by (simp add: recentDonationsSection_def loadRecentDonations_def
        loadRecentDonationsResume_def loadRecentDonationsStart_def)

theorem recentDonationsSection_items_or_empty_witness:
  "recentDonationsSection
     (loadRecentDonations (Some sampleUser)
        (Returned \<lparr>r_success = True,
                   r_donations = [\<lparr>date = ''2025-01-10'', location = ''City Hospital'',
                                   units = 1, bloodGroup = Some ''O+''\<rparr>]\<rparr>)
        initialDashboard)
   = DonationsList [\<lparr>historyLocation = ''City Hospital'', historyDate = ''2025-01-10'',
                     historyUnits = 1\<rparr>]
   \<and> recentDonationsSection (initialDashboard\<lparr>loadingDonations := False\<rparr>) = DonationsEmpty"
  using recentDonationsSection_items_or_empty
          [of "initialDashboard\<lparr>loadingDonations := False\<rparr>" "Some sampleUser"
              "\<lparr>r_success = True,
                r_donations = [\<lparr>date = ''2025-01-10'', location = ''City Hospital'',
                                units = 1, bloodGroup = Some ''O+''\<rparr>]\<rparr>"]
        recentDonationsSection_items_or_empty
          [of initialDashboard "Some sampleUser"
              "\<lparr>r_success = True,
                r_donations = [\<lparr>date = ''2025-01-10'', location = ''City Hospital'',
                                units = 1, bloodGroup = Some ''O+''\<rparr>]\<rparr>"]
  by (simp add: hasUserId_def sampleUser_def historyItem_def initialDashboard_def)

section \<open>Failures of the statistics and details refresh (C5)\<close>

text \<open>
  C5. A thrown error in \<open>loadDonorStats\<close> or \<open>loadDonorDetails\<close>, and an answer of the
  details endpoint whose \<open>success\<close> is false, are absorbed: the state after is the state
  before, so the donated count and the donor info keep their previous values.
\<close>

theorem stats_details_failure_unchanged:
  "loadDonorStats u Threw s = s
   \<and> loadDonorDetails u Threw s = s
   \<and> (\<not> d_success data \<longrightarrow> loadDonorDetails u (Returned data) s = s)"
  by (simp add: loadDonorStats_def loadDonorStatsResume_def
        loadDonorDetails_def loadDonorDetailsResume_def)

theorem stats_details_failure_unchanged_witness:
  "loadDonorDetails (Some sampleUser)
     (Returned \<lparr>d_success = False, d_bloodGroup = Some ''A-'', d_lastDonation = None,
                d_nextEligible = None, d_daysUntilEligible = Some 4, d_isEligible = True\<rparr>)
     initialDashboard = initialDashboard"
  using stats_details_failure_unchanged
          [of "Some sampleUser" initialDashboard
              "\<lparr>d_success = False, d_bloodGroup = Some ''A-'', d_lastDonation = None,
                d_nextEligible = None, d_daysUntilEligible = Some 4, d_isEligible = True\<rparr>"]
  by simp

section \<open>The alert's buttons (C6)\<close>

text \<open>
  C6. For a list of \<open>N\<close> buttons (\<open>N\<close> may be zero) the dialog renders \<open>N\<close> buttons, each
  with the label of its entry and the shared \<open>button\<close> style; the \<open>buttonSingle\<close> style
  is added exactly when the list has one entry. Pressing the \<open>i\<close>-th button adds to the
  calls made so far that button's own callback, when it has one, and then the dismissal
  callback, when there is one: each once, in that order.
\<close>

theorem CustomAlert_buttons_and_press:
  assumes "buttons props = Some bs"
  shows "length (CustomAlert props) = length bs
       \<and> (\<forall>i<length bs.
            label (CustomAlert props ! i) = btext (bs ! i)
          \<and> Button \<in> set (touchStyle (CustomAlert props ! i))
          \<and> (ButtonSingle \<in> set (touchStyle (CustomAlert props ! i)) \<longleftrightarrow> length bs = 1)
          \<and> (\<forall>calls. touchOnPress (CustomAlert props ! i) calls =
                calls @ (case onPress (bs ! i) of None \<Rightarrow> [] | Some c \<Rightarrow> [c])
                      @ (case onDismiss props of None \<Rightarrow> [] | Some d \<Rightarrow> [d])))"
  using assms
  by (simp add: CustomAlert_def renderButton_def handleButtonPress_calls)

theorem CustomAlert_buttons_and_press_witness:
  "length (CustomAlert \<lparr>buttons = Some logoutButtons, onDismiss = Some ''hideAlert''\<rparr>) = 2
   \<and> touchOnPress (CustomAlert \<lparr>buttons = Some logoutButtons, onDismiss = Some ''hideAlert''\<rparr> ! 1) []
       = [''logout'', ''hideAlert'']"
proof -
  let ?props = "\<lparr>buttons = Some logoutButtons, onDismiss = Some ''hideAlert''\<rparr>"
  have b: "buttons ?props = Some logoutButtons" by simp
  have len: "length logoutButtons = 2" by (simp add: logoutButtons_def)
  note t = CustomAlert_buttons_and_press [OF b]
  have "length (CustomAlert ?props) = 2" using t len by simp
  moreover have "touchOnPress (CustomAlert ?props ! 1) [] = [''logout'', ''hideAlert'']"
    using t [THEN conjunct2, rule_format, of 1] len
    by (simp add: logoutButtons_def)
  ultimately show ?thesis by simp
qed

section \<open>Storing the donor details (C7)\<close>

text \<open>
  C7. A successful answer of the details endpoint is stored field by field as it came:
  the blood group as the blood type, and the last donation, the next eligible date, the
  days until eligibility and the eligibility flag unchanged. Nothing is derived from or
  checked against another field, and no other cell changes.
\<close>

theorem loadDonorDetails_verbatim:
  assumes "hasUserId u" and "d_success data"
  shows "loadDonorDetails u (Returned data) s =
           s\<lparr>donorInfo :=
               \<lparr>bloodType = d_bloodGroup data,
                lastDonation = d_lastDonation data,
                nextEligible = d_nextEligible data,
                daysUntilEligible = d_daysUntilEligible data,
                isEligible = d_isEligible data\<rparr>\<rparr>"
  using assms by (simp add: loadDonorDetails_def loadDonorDetailsResume_def)

text \<open>The witness stores an answer in which the day count and the flag disagree.\<close>

theorem loadDonorDetails_verbatim_witness:
  "donorInfo (loadDonorDetails (Some sampleUser)
     (Returned \<lparr>d_success = True, d_bloodGroup = Some ''A-'', d_lastDonation = Some ''2025-01-10'',
                d_nextEligible = Some ''2025-04-10'', d_daysUntilEligible = Some 40,
                d_isEligible = True\<rparr>)
     initialDashboard)
   = \<lparr>bloodType = Some ''A-'', lastDonation = Some ''2025-01-10'',
      nextEligible = Some ''2025-04-10'', daysUntilEligible = Some 40, isEligible = True\<rparr>"
proof -
  have u: "hasUserId (Some sampleUser)" by (simp add: hasUserId_def sampleUser_def)
  have d: "d_success \<lparr>d_success = True, d_bloodGroup = Some ''A-'',
                d_lastDonation = Some ''2025-01-10'',
                d_nextEligible = Some ''2025-04-10'', d_daysUntilEligible = Some 40,
                d_isEligible = True\<rparr>" by simp
  from loadDonorDetails_verbatim [OF u d, of initialDashboard] show ?thesis by simp
qed

section \<open>Unmounting with a poll in flight (C8)\<close>

text \<open>
  C8, as amended. Unmounting clears the interval and nothing else: it leaves the cells
  and the requests in flight as they are; from then on neither the timer nor a focus
  event starts a poll, so the number of requests in flight never grows again. A poll
  that was in flight at the unmount still completes, and its continuation stores the
  answer in the dashboard's cells exactly as it does on a mounted screen: the code has
  no mounted flag and cancels no request.
\<close>

theorem unmount_cancels_timer_only:
  "\<not> mounted (step u Unmount sc) \<and> \<not> intervalActive (step u Unmount sc)
   \<and> inflight (step u Unmount sc) = inflight sc
   \<and> cells (step u Unmount sc) = cells sc
   \<and> step u TimerFires (step u Unmount sc) = step u Unmount sc
   \<and> step u FocusGained (step u Unmount sc) = step u Unmount sc
   \<and> \<not> intervalActive (run u es (step u Unmount sc))
   \<and> length (inflight (run u es (step u Unmount sc))) \<le> length (inflight sc)
   \<and> (i < length (inflight sc) \<and> inflight sc ! i = answers a \<longrightarrow>
        cells (step u (Resolve i a) (step u Unmount sc)) = resume a (cells sc))"
proof -
  have a: "\<not> mounted (step u Unmount sc)" and b: "\<not> intervalActive (step u Unmount sc)"
    and c: "inflight (step u Unmount sc) = inflight sc"
    by simp_all
  from run_after_unmount [OF a b, of u es] c
  have "\<not> intervalActive (run u es (step u Unmount sc))
      \<and> length (inflight (run u es (step u Unmount sc))) \<le> length (inflight sc)"
    by simp
  then show ?thesis by simp
qed

theorem unmount_cancels_timer_only_witness:
  "donatedCount (cells (step (Some sampleUser)
       (Resolve 1 (StatsAnswer (Returned \<lparr>stats_donatedCount = 3\<rparr>)))
       (step (Some sampleUser) Unmount (mountScreen (Some sampleUser))))) = 3"
proof -
  have pre: "1 < length (inflight (mountScreen (Some sampleUser)))
      \<and> inflight (mountScreen (Some sampleUser)) ! 1
          = answers (StatsAnswer (Returned \<lparr>stats_donatedCount = 3\<rparr>))"
    by code_simp
  from unmount_cancels_timer_only
         [of "Some sampleUser" "mountScreen (Some sampleUser)" "[]" 1
             "StatsAnswer (Returned \<lparr>stats_donatedCount = 3\<rparr>)"] pre
  have "cells (step (Some sampleUser)
       (Resolve 1 (StatsAnswer (Returned \<lparr>stats_donatedCount = 3\<rparr>)))
       (step (Some sampleUser) Unmount (mountScreen (Some sampleUser))))
     = resume (StatsAnswer (Returned \<lparr>stats_donatedCount = 3\<rparr>))
         (cells (mountScreen (Some sampleUser)))"
    by blast
  then show ?thesis by (simp add: loadDonorStatsResume_def)
qed

text \<open>
  C8 as stated fails. The interval fires on the mounted screen and sends its three
  requests (positions 11 to 13 in flight); the screen unmounts with the donated count
  still \<open>0\<close>; the statistics request of that poll is then answered with \<open>7\<close>, and the
  continuation stores \<open>7\<close>.
\<close>

theorem unmount_inflight_counterexample:
  "\<not> mounted (run (Some sampleUser) [TimerFires, Unmount] (mountScreen (Some sampleUser)))
   \<and> inflight (run (Some sampleUser) [TimerFires, Unmount] (mountScreen (Some sampleUser))) ! 12
       = ReqStats
   \<and> donatedCount (cells (run (Some sampleUser) [TimerFires, Unmount]
        (mountScreen (Some sampleUser)))) = 0
   \<and> donatedCount (cells (run (Some sampleUser)
        [TimerFires, Unmount, Resolve 12 (StatsAnswer (Returned \<lparr>stats_donatedCount = 7\<rparr>))]
        (mountScreen (Some sampleUser)))) = 7"
  by code_simp

section \<open>The default button of the alert (C9)\<close>

text \<open>
  C9. Without a \<open>buttons\<close> property the dialog renders exactly one button, labelled
  \<open>OK\<close>, in the default style (the shared \<open>button\<close> style with \<open>buttonSingle\<close>, neither
  cancel nor destructive). The default button has no callback of its own, so pressing
  it calls the dismissal callback only, when there is one.
\<close>

theorem CustomAlert_default_button:
  assumes "buttons props = None"
  shows "\<exists>b. CustomAlert props = [b]
           \<and> label b = ''OK''
           \<and> touchStyle b = [Button, ButtonSingle]
           \<and> labelStyle b = [ButtonText]
           \<and> (\<forall>calls. touchOnPress b calls =
                 calls @ (case onDismiss props of None \<Rightarrow> [] | Some d \<Rightarrow> [d]))"
  using assms
  by (simp add: CustomAlert_def defaultButtons_def renderButton_def handleButtonPress_calls)

theorem CustomAlert_default_button_witness:
  "\<exists>b. CustomAlert \<lparr>buttons = None, onDismiss = Some ''hideAlert''\<rparr> = [b]
        \<and> label b = ''OK''
        \<and> touchOnPress b [] = [''hideAlert'']"
proof -
  have n: "buttons \<lparr>buttons = None, onDismiss = Some ''hideAlert''\<rparr> = None" by simp
  from CustomAlert_default_button [OF n] obtain b where
    "CustomAlert \<lparr>buttons = None, onDismiss = Some ''hideAlert''\<rparr> = [b]"
    "label b = ''OK''"
    "\<forall>calls. touchOnPress b calls = calls @ [''hideAlert'']"
    by auto
  then show ?thesis by simp
qed

section \<open>The stored approval status (C10)\<close>

text \<open>
  C10, as amended. For an answer with a truthy \<open>success\<close> and a truthy \<open>profile\<close>, the
  status is read as \<open>approval_status || approvalStatus\<close>: the first field when it is
  truthy (a string then has to be non-empty), the second field otherwise. When the value
  read is a string, the profile status becomes its lower-case form; when it is not
  (both fields absent, or an empty \<open>approval_status\<close> with no \<open>approvalStatus\<close>), the
  call of \<open>toLowerCase\<close> throws, the error is caught and the profile status becomes
  \<open>'none'\<close>.
\<close>

theorem loadProfileStatus_lowercase:
  assumes "u = Some v"
    and "getProp response ''success'' = Inr x" and "truthy x"
    and "getProp response ''profile'' = Inr p" and "truthy p"
    and "getProp p ''approval_status'' = Inr a1"
    and "getProp p ''approvalStatus'' = Inr a2"
  shows "profileStatus (loadProfileStatus u (Returned response) s) =
           (case (if truthy a1 then a1 else a2) of
              JStr t \<Rightarrow> toLowerCase t
            | _ \<Rightarrow> ''none'')"
proof -
  have body: "profileTryBody (Returned response) s = storeProfile p s"
    using assms(2-5) by (simp add: profileTryBody_def bindE_def)
  from storeProfile_status [OF assms(6,7,5), of s] show ?thesis
    using assms(1) body
    by (cases "storeProfile p s"; cases "if truthy a1 then a1 else a2")
       (auto simp: loadProfileStatus_def loadProfileStatusResume_def js_or_def)
qed

theorem loadProfileStatus_lowercase_witness:
  "profileStatus (loadProfileStatus (Some sampleUser)
       (Returned (JObj [(''success'', JBool True),
                        (''profile'', JObj [(''approval_status'', JStr ''APPROVED'')])]))
       initialDashboard) = ''approved''"
proof -
  have low: "toLowerCase ''APPROVED'' = ''approved''" by code_simp
  show ?thesis
    using loadProfileStatus_lowercase
            [of "Some sampleUser" sampleUser
                "JObj [(''success'', JBool True),
                       (''profile'', JObj [(''approval_status'', JStr ''APPROVED'')])]"
                "JBool True"
                "JObj [(''approval_status'', JStr ''APPROVED'')]"
                "JStr ''APPROVED''" JUndefined initialDashboard]
    by (simp add: low)
qed

text \<open>
  C10 as stated fails: a profile that carries the field \<open>approval_status\<close> with the
  empty string does not set the profile status to the lower-case form of that string
  (the empty string) but to \<open>'none'\<close>.
\<close>

theorem loadProfileStatus_empty_status_counterexample:
  "getProp (JObj [(''approval_status'', JStr [])]) ''approval_status'' = Inr (JStr [])
   \<and> toLowerCase [] = []
   \<and> profileStatus (loadProfileStatus (Some sampleUser) (Returned emptyStatusAnswer)
        initialDashboard) = ''none''"
  by code_simp

end
